theory Spec2Isabelle
  imports Main
begin

section \<open>Data model\<close>

text \<open>
  The wrapper talks to three collaborators that are not part of the repository: the
  request library (resty), the Go standard library (net/http, net/url, path, strings) and
  the resilience library. Their values are modelled by the data the repository reads from
  or writes to them.
\<close>

subsection \<open>Errors\<close>

text \<open>
  A Go \<^verbatim>\<open>error\<close> value. \<^verbatim>\<open>ErrCircuitOpen\<close> is the sentinel re-exported in
  httpclient.go; \<^verbatim>\<open>Wrap\<close> is an error whose \<^verbatim>\<open>Unwrap\<close> gives the inner error.
  A returned \<^verbatim>\<open>error\<close> that may be nil is an \<open>error option\<close>.
\<close>

datatype error = ErrCircuitOpen | Err string | Wrap string error

text \<open>\<^verbatim>\<open>errors.Is(err, ErrCircuitOpen)\<close>: the sentinel itself or anything wrapping it.\<close>

fun errors_Is_ErrCircuitOpen :: "error \<Rightarrow> bool" where
  "errors_Is_ErrCircuitOpen ErrCircuitOpen = True"
| "errors_Is_ErrCircuitOpen (Err m) = False"
| "errors_Is_ErrCircuitOpen (Wrap m e) = errors_Is_ErrCircuitOpen e"

subsection \<open>Headers and cookies\<close>

text \<open>
  \<^verbatim>\<open>http.Header\<close> is \<^verbatim>\<open>map[string][]string\<close>; \<^verbatim>\<open>http.Cookie\<close> is a struct of which
  the repository and its tests use the name, the value, the raw text and the max age.
\<close>

type_synonym http_Header = "string \<rightharpoonup> string list"

record http_Cookie =
  Name :: string
  Value :: string
  Raw :: string
  MaxAge :: int

subsection \<open>Response\<close>

text \<open>
  The \<^verbatim>\<open>Response\<close> struct. Durations are nanoseconds (\<^verbatim>\<open>time.Duration\<close>). The
  \<^verbatim>\<open>request\<close> field is a pointer back to the issuing \<^verbatim>\<open>Request\<close>; no function of
  the repository reads through it, and it is left out of the record.
\<close>

record Response =
  statusCode :: int
  body :: string
  header :: http_Header
  cookies :: "http_Cookie list"
  responseTime :: int

text \<open>The pair \<^verbatim>\<open>(*Response, error)\<close> that thunks and callbacks return.\<close>

type_synonym result = "Response option \<times> error option"

subsection \<open>The world\<close>

text \<open>
  Callbacks and the network call have effects. They are functions on a world that holds
  the clock read by \<^verbatim>\<open>time.Now\<close>, the \<^verbatim>\<open>startTime\<close> field that \<^verbatim>\<open>Execute\<close>
  writes into the request, and whatever else the collaborators touch.
\<close>

record 'e world =
  clock :: int
  startTime :: int
  env :: 'e

type_synonym 'e thunk = "'e world \<Rightarrow> result \<times> 'e world"

type_synonym 'e Callback = "'e thunk \<Rightarrow> 'e thunk"

subsection \<open>Collaborators of the client\<close>

text \<open>
  \<^verbatim>\<open>url.URL\<close>: the repository only calls \<^verbatim>\<open>Hostname()\<close> on a parsed URL, so a
  parsed URL is the hostname it reports. \<^verbatim>\<open>url.Parse\<close> itself is standard library and
  is a parameter of the options that call it: it gives \<open>None\<close> where Go returns
  \<^verbatim>\<open>(nil, err)\<close>.
\<close>

datatype URL = URL (Hostname: string)

type_synonym url_Parse = "string \<Rightarrow> URL option"

text \<open>
  The \<^verbatim>\<open>Metrics\<close> interface value held by the client: a sink, named by a number. What
  a sink does with a call is its own business; the calls made on it are recorded as
  events (see \<open>report\<close> below).
\<close>

datatype Metrics = Sink nat

text \<open>
  The round-trippers that the transport options install. The \<^verbatim>\<open>Proxy\<close> field of an
  \<^verbatim>\<open>http.Transport\<close> is a function: nil, \<^verbatim>\<open>http.ProxyFromEnvironment\<close> or
  \<^verbatim>\<open>http.ProxyURL(u)\<close>.
\<close>

datatype proxy = NoProxy | ProxyFromEnvironment | ProxyURL URL

record http_Transport =
  Proxy :: proxy
  DialTimeout :: int
  DialKeepAlive :: int
  MaxIdleConns :: int
  MaxIdleConnsPerHost :: int
  IdleConnTimeout :: int
  TLSHandshakeTimeout :: int

record cc_Config =
  ClientID :: string
  ClientSecret :: string
  TokenURL :: string
  Scopes :: "string list"

datatype RoundTripper =
    HttpTransport http_Transport
  | Transport RoundTripper
  | OAuth2Transport cc_Config RoundTripper

definition second :: int where "second = 1000000000"

definition minute :: int where "minute = 60 * second"

text \<open>\<^verbatim>\<open>NewDefaultTransport\<close>: the decorating transport around a tuned \<^verbatim>\<open>http.Transport\<close>.\<close>

definition NewDefaultTransport :: "int \<Rightarrow> RoundTripper" where
  "NewDefaultTransport transportTimeout =
     Transport (HttpTransport
       \<lparr>Proxy = ProxyFromEnvironment,
        DialTimeout = transportTimeout,
        DialKeepAlive = 15 * second,
        MaxIdleConns = 100,
        MaxIdleConnsPerHost = 100,
        IdleConnTimeout = 90 * second,
        TLSHandshakeTimeout = 10 * second\<rparr>)"

text \<open>
  The resty client, as the fields its setters write. The setters are library code: each is
  modelled as the assignment its documentation describes. Retry conditions are function
  values, named by numbers.
\<close>

record resty_Client =
  Transport_field :: "RoundTripper option"
  Timeout :: int
  Header :: http_Header
  UserInfo :: "(string \<times> string) option"
  Token :: string
  Cookies :: "http_Cookie list"
  HostURL :: string
  RetryCount :: int
  RetryWaitTime :: int
  RetryMaxWaitTime :: int
  RetryConditions :: "nat list"
  proxyURL_field :: "URL option"

text \<open>
  \<^verbatim>\<open>textproto.CanonicalMIMEHeaderKey\<close>, used by \<^verbatim>\<open>http.Header\<close>'s \<^verbatim>\<open>Add\<close>,
  \<^verbatim>\<open>Set\<close> and \<^verbatim>\<open>Get\<close>: a key made of header token bytes gets an upper-case letter
  at the start and after each hyphen and lower-case letters elsewhere; any other key is
  left as it is.
\<close>

definition is_lower :: "char \<Rightarrow> bool" where
  "is_lower c = (97 \<le> (of_char c :: nat) \<and> (of_char c :: nat) \<le> 122)"

definition is_upper :: "char \<Rightarrow> bool" where
  "is_upper c = (65 \<le> (of_char c :: nat) \<and> (of_char c :: nat) \<le> 90)"

definition is_digit :: "char \<Rightarrow> bool" where
  "is_digit c = (48 \<le> (of_char c :: nat) \<and> (of_char c :: nat) \<le> 57)"

definition validHeaderFieldByte :: "char \<Rightarrow> bool" where
  "validHeaderFieldByte c =
     (is_lower c \<or> is_upper c \<or> is_digit c \<or> c \<in> set ''!#$%&*+-.^_`|~''
      \<or> (of_char c :: nat) = 39)"

fun canonicalise :: "bool \<Rightarrow> string \<Rightarrow> string" where
  "canonicalise upper [] = []"
| "canonicalise upper (c # cs) =
     (let c' = (if upper \<and> is_lower c then char_of ((of_char c :: nat) - 32)
                else if \<not> upper \<and> is_upper c then char_of ((of_char c :: nat) + 32)
                else c)
      in c' # canonicalise (c' = CHR ''-'') cs)"

definition CanonicalMIMEHeaderKey :: "string \<Rightarrow> string" where
  "CanonicalMIMEHeaderKey s =
     (if list_all validHeaderFieldByte s then canonicalise True s else s)"

definition Header_Add :: "string \<Rightarrow> string \<Rightarrow> http_Header \<Rightarrow> http_Header" where
  "Header_Add key v h =
     (let k = CanonicalMIMEHeaderKey key
      in h(k \<mapsto> (case h k of None \<Rightarrow> [] | Some vs \<Rightarrow> vs) @ [v]))"

definition Header_Set :: "string \<Rightarrow> string \<Rightarrow> http_Header \<Rightarrow> http_Header" where
  "Header_Set key v h = h(CanonicalMIMEHeaderKey key \<mapsto> [v])"

text \<open>\<^verbatim>\<open>Header.Get\<close>: the first value under the canonical key, or the empty string.\<close>

definition Header_Get :: "http_Header \<Rightarrow> string \<Rightarrow> string" where
  "Header_Get h key =
     (case h (CanonicalMIMEHeaderKey key) of
        None \<Rightarrow> []
      | Some [] \<Rightarrow> []
      | Some (v # vs) \<Rightarrow> v)"

text \<open>The resty setters the options call.\<close>

definition SetTransport :: "RoundTripper option \<Rightarrow> resty_Client \<Rightarrow> resty_Client" where
  "SetTransport transport c =
     (case transport of None \<Rightarrow> c | Some t \<Rightarrow> c\<lparr>Transport_field := Some t\<rparr>)"

definition SetTimeout :: "int \<Rightarrow> resty_Client \<Rightarrow> resty_Client" where
  "SetTimeout timeout c = c\<lparr>Timeout := timeout\<rparr>"

definition SetHeader :: "string \<Rightarrow> string \<Rightarrow> resty_Client \<Rightarrow> resty_Client" where
  "SetHeader name v c = c\<lparr>Header := Header_Set name v (Header c)\<rparr>"

definition SetBasicAuth :: "string \<Rightarrow> string \<Rightarrow> resty_Client \<Rightarrow> resty_Client" where
  "SetBasicAuth username password c = c\<lparr>UserInfo := Some (username, password)\<rparr>"

definition SetAuthToken :: "string \<Rightarrow> resty_Client \<Rightarrow> resty_Client" where
  "SetAuthToken token c = c\<lparr>Token := token\<rparr>"

definition SetCookie :: "http_Cookie \<Rightarrow> resty_Client \<Rightarrow> resty_Client" where
  "SetCookie hc c = c\<lparr>Cookies := Cookies c @ [hc]\<rparr>"

definition SetHostURL :: "string \<Rightarrow> resty_Client \<Rightarrow> resty_Client" where
  "SetHostURL u c = c\<lparr>HostURL := rev (dropWhile (\<lambda>x. x = CHR ''/'') (rev u))\<rparr>"

definition SetRetryCount :: "int \<Rightarrow> resty_Client \<Rightarrow> resty_Client" where
  "SetRetryCount n c = c\<lparr>RetryCount := n\<rparr>"

definition SetRetryWaitTime :: "int \<Rightarrow> resty_Client \<Rightarrow> resty_Client" where
  "SetRetryWaitTime d c = c\<lparr>RetryWaitTime := d\<rparr>"

definition SetRetryMaxWaitTime :: "int \<Rightarrow> resty_Client \<Rightarrow> resty_Client" where
  "SetRetryMaxWaitTime d c = c\<lparr>RetryMaxWaitTime := d\<rparr>"

definition AddRetryCondition :: "nat \<Rightarrow> resty_Client \<Rightarrow> resty_Client" where
  "AddRetryCondition cond c = c\<lparr>RetryConditions := RetryConditions c @ [cond]\<rparr>"

text \<open>
  \<^verbatim>\<open>SetProxy\<close> works on the installed transport. The library's \<^verbatim>\<open>getTransport\<close>
  installs a fresh \<^verbatim>\<open>http.Transport\<close> when none is set, and gives the transport only
  if it is an \<^verbatim>\<open>*http.Transport\<close>; for any other round-tripper it reports an error,
  which \<^verbatim>\<open>SetProxy\<close> and \<^verbatim>\<open>RemoveProxy\<close> log before returning the client as it
  is. With a transport, \<^verbatim>\<open>SetProxy\<close> parses the address: on success it stores the URL
  and makes it the transport's proxy, on failure it removes the proxy. The log is not
  part of the configuration and is not modelled.
\<close>

definition new_http_Transport :: http_Transport where
  "new_http_Transport =
     \<lparr>Proxy = NoProxy, DialTimeout = 0, DialKeepAlive = 0, MaxIdleConns = 0,
      MaxIdleConnsPerHost = 0, IdleConnTimeout = 0, TLSHandshakeTimeout = 0\<rparr>"

definition getTransport :: "resty_Client \<Rightarrow> resty_Client \<times> http_Transport option" where
  "getTransport c =
     (case Transport_field c of
        None \<Rightarrow> (SetTransport (Some (HttpTransport new_http_Transport)) c, Some new_http_Transport)
      | Some (HttpTransport t) \<Rightarrow> (c, Some t)
      | Some _ \<Rightarrow> (c, None))"

definition RemoveProxy :: "resty_Client \<Rightarrow> resty_Client" where
  "RemoveProxy c =
     (case getTransport c of
        (c', None) \<Rightarrow> c'
      | (c', Some t) \<Rightarrow>
          c'\<lparr>proxyURL_field := None, Transport_field := Some (HttpTransport (t\<lparr>Proxy := NoProxy\<rparr>))\<rparr>)"

definition SetProxy :: "url_Parse \<Rightarrow> string \<Rightarrow> resty_Client \<Rightarrow> resty_Client" where
  "SetProxy url_Parse proxyAddress c =
     (case getTransport c of
        (c', None) \<Rightarrow> c'
      | (c', Some t) \<Rightarrow>
          (case url_Parse proxyAddress of
             Some pURL \<Rightarrow>
               c'\<lparr>proxyURL_field := Some pURL,
                  Transport_field := Some (HttpTransport (t\<lparr>Proxy := ProxyURL pURL\<rparr>))\<rparr>
           | None \<Rightarrow> RemoveProxy c'))"

subsection \<open>The client\<close>

record 'e HTTPClient =
  resty :: resty_Client
  hostURL :: "URL option"
  metrics :: "Metrics option"
  callbackChain :: "'e Callback option"

type_synonym 'e Opt = "'e HTTPClient \<Rightarrow> 'e HTTPClient"

section \<open>The callback chain\<close>

text \<open>\<^verbatim>\<open>noopCallback\<close> calls the thunk.\<close>

definition noopCallback :: "'e Callback" where
  "noopCallback fn = (\<lambda>w. fn w)"

text \<open>
  \<^verbatim>\<open>chainCallback\<close>: a nil chain is replaced by the new callback, any other chain is
  wrapped by it.
\<close>

definition chainCallback :: "'e Callback \<Rightarrow> 'e HTTPClient \<Rightarrow> 'e HTTPClient" where
  "chainCallback newCallback c =
     (case callbackChain c of
        None \<Rightarrow> c\<lparr>callbackChain := Some newCallback\<rparr>
      | Some previousCallback \<Rightarrow>
          c\<lparr>callbackChain := Some (\<lambda>fn. newCallback (\<lambda>w. previousCallback fn w))\<rparr>)"

definition setTransport :: "RoundTripper option \<Rightarrow> 'e HTTPClient \<Rightarrow> 'e HTTPClient" where
  "setTransport transport c = c\<lparr>resty := SetTransport transport (resty c)\<rparr>"

text \<open>
  \<^verbatim>\<open>newClient\<close>: the resty client built around \<^verbatim>\<open>customClient\<close> is the parameter
  \<open>restyClient\<close>; the options are applied from left to right. The \<^verbatim>\<open>oauth\<close> flag is
  not read by the source.
\<close>

definition newClient :: "resty_Client \<Rightarrow> bool \<Rightarrow> 'e Opt list \<Rightarrow> 'e HTTPClient" where
  "newClient restyClient oauth options =
     foldl (\<lambda>client option. option client)
       \<lparr>resty = restyClient, hostURL = None, metrics = None,
        callbackChain = Some noopCallback\<rparr>
       options"

section \<open>Options\<close>

text \<open>
  The resilience library's runners (\<^verbatim>\<open>circuitbreaker.New(config)\<close>,
  \<^verbatim>\<open>retry.New(config)\<close>) are library code. A runner's \<^verbatim>\<open>Run\<close> receives a function
  that returns an error, calls it as often as its policy says (possibly never) and
  returns an error. The function it is given assigns the captured variable
  \<^verbatim>\<open>resp\<close>, so the state it works on is that variable together with the world.
\<close>

type_synonym 'e Runner =
  "(Response option \<times> 'e world \<Rightarrow> error option \<times> Response option \<times> 'e world)
   \<Rightarrow> Response option \<times> 'e world \<Rightarrow> error option \<times> Response option \<times> 'e world"

record circuitbreaker_Config =
  ErrorPercentThresholdToOpen :: int
  MinimumRequestToOpen :: int
  SuccessfulRequiredOnHalfOpen :: int
  WaitDurationInOpenState :: int
  MetricsSlidingWindowBucketQuantity :: int
  MetricsBucketDuration :: int

record retry_Config =
  WaitBase :: int
  DisableBackoff :: bool
  Times :: int

text \<open>
  The callback both \<^verbatim>\<open>WithCircuitBreaker\<close> and \<^verbatim>\<open>WithBackoff\<close> build around a
  runner: \<^verbatim>\<open>resp\<close> starts nil, the runner runs the function that calls \<^verbatim>\<open>fn\<close> and
  stores its response, and the callback returns the stored response with the runner's
  error.
\<close>

definition runnerCallback :: "'e Runner \<Rightarrow> 'e Callback" where
  "runnerCallback run fn w =
     (case run (\<lambda>(resp, w1). case fn w1 of ((resp', err'), w2) \<Rightarrow> (err', resp', w2)) (None, w) of
        (err, resp, w') \<Rightarrow> ((resp, err), w'))"

definition WithDefaultTransport :: "int \<Rightarrow> 'e Opt" where
  "WithDefaultTransport transportTimeout client =
     setTransport (Some (NewDefaultTransport transportTimeout)) client"

definition WithTransport :: "http_Transport \<Rightarrow> 'e Opt" where
  "WithTransport transport client = setTransport (Some (HttpTransport transport)) client"

definition WithOAUTHTransport :: "cc_Config \<Rightarrow> int \<Rightarrow> 'e Opt" where
  "WithOAUTHTransport conf transportTimeout client =
     setTransport (Some (OAuth2Transport conf (NewDefaultTransport transportTimeout))) client"

definition WithDefaultTransportWithProxy :: "URL \<Rightarrow> 'e Opt" where
  "WithDefaultTransportWithProxy proxyURL client =
     setTransport (Some (Transport (HttpTransport
       \<lparr>Proxy = ProxyURL proxyURL,
        DialTimeout = 0,
        DialKeepAlive = 5 * minute,
        MaxIdleConns = 10,
        MaxIdleConnsPerHost = 0,
        IdleConnTimeout = 90 * second,
        TLSHandshakeTimeout = 10 * second\<rparr>))) client"

definition WithTimeout :: "int \<Rightarrow> 'e Opt" where
  "WithTimeout timeout client = client\<lparr>resty := SetTimeout timeout (resty client)\<rparr>"

definition WithUserAgent :: "string \<Rightarrow> 'e Opt" where
  "WithUserAgent userAgent client =
     client\<lparr>resty := SetHeader ''User-Agent'' userAgent (resty client)\<rparr>"

definition WithBasicAuth :: "string \<Rightarrow> string \<Rightarrow> 'e Opt" where
  "WithBasicAuth username password client =
     client\<lparr>resty := SetBasicAuth username password (resty client)\<rparr>"

definition WithAuthToken :: "string \<Rightarrow> 'e Opt" where
  "WithAuthToken token client = client\<lparr>resty := SetAuthToken token (resty client)\<rparr>"

definition WithCookie :: "string \<Rightarrow> string \<Rightarrow> 'e Opt" where
  "WithCookie name v client =
     client\<lparr>resty := SetCookie \<lparr>Name = name, Value = v, Raw = [], MaxAge = 3600\<rparr> (resty client)\<rparr>"

text \<open>\<^verbatim>\<open>WithHostURL\<close> keeps the parsed URL and drops the parse error.\<close>

definition WithHostURL :: "url_Parse \<Rightarrow> string \<Rightarrow> 'e Opt" where
  "WithHostURL url_Parse baseURL client =
     (client\<lparr>hostURL := url_Parse baseURL\<rparr>)\<lparr>resty := SetHostURL baseURL (resty client)\<rparr>"

definition WithCircuitBreaker ::
  "(circuitbreaker_Config \<Rightarrow> 'e Runner) \<Rightarrow> circuitbreaker_Config \<Rightarrow> 'e Opt" where
  "WithCircuitBreaker circuitbreaker_New config client =
     chainCallback (runnerCallback (circuitbreaker_New config)) client"

definition WithBackoff :: "(retry_Config \<Rightarrow> 'e Runner) \<Rightarrow> int \<Rightarrow> int \<Rightarrow> bool \<Rightarrow> 'e Opt" where
  "WithBackoff retry_New retries waitTime exponential client =
     chainCallback
       (runnerCallback
          (retry_New \<lparr>WaitBase = waitTime, DisableBackoff = \<not> exponential, Times = retries\<rparr>))
       (client\<lparr>resty := SetRetryCount retries (resty client)\<rparr>)"

definition WithLinearBackoff :: "(retry_Config \<Rightarrow> 'e Runner) \<Rightarrow> int \<Rightarrow> int \<Rightarrow> 'e Opt" where
  "WithLinearBackoff retry_New retries waitTime = WithBackoff retry_New retries waitTime False"

definition WithExponentialBackoff :: "(retry_Config \<Rightarrow> 'e Runner) \<Rightarrow> int \<Rightarrow> int \<Rightarrow> 'e Opt" where
  "WithExponentialBackoff retry_New retries waitTime = WithBackoff retry_New retries waitTime True"

definition WithMetrics :: "Metrics option \<Rightarrow> 'e Opt" where
  "WithMetrics m client = client\<lparr>metrics := m\<rparr>"

definition WithProxy :: "url_Parse \<Rightarrow> string \<Rightarrow> 'e Opt" where
  "WithProxy url_Parse proxyAddress client =
     client\<lparr>resty := SetProxy url_Parse proxyAddress (resty client)\<rparr>"

definition WithRetries :: "int \<Rightarrow> int \<Rightarrow> int \<Rightarrow> 'e Opt" where
  "WithRetries retries waitTime maxWaitTime client =
     client\<lparr>resty :=
       SetRetryMaxWaitTime maxWaitTime
         (SetRetryWaitTime waitTime (SetRetryCount retries (resty client)))\<rparr>"

definition WithRetryConditions :: "nat list \<Rightarrow> 'e Opt" where
  "WithRetryConditions conditions client =
     client\<lparr>resty := foldl (\<lambda>c condition. AddRetryCondition condition c) (resty client) conditions\<rparr>"

definition WithChainCallback :: "'e Callback \<Rightarrow> 'e Opt" where
  "WithChainCallback fn client = chainCallback fn client"

text \<open>
  An option value is always the result of one of the exported constructors. This type
  names the constructor and its arguments, \<open>the_option\<close> gives the option itself.
\<close>

datatype 'e option_spec =
    DefaultTransport int
  | CustomTransport http_Transport
  | OAUTHTransport cc_Config int
  | DefaultTransportWithProxy URL
  | TimeoutOf int
  | UserAgent string
  | BasicAuth string string
  | AuthToken string
  | CookieOf string string
  | HostURLOf url_Parse string
  | CircuitBreaker "circuitbreaker_Config \<Rightarrow> 'e Runner" circuitbreaker_Config
  | LinearBackoff "retry_Config \<Rightarrow> 'e Runner" int int
  | ExponentialBackoff "retry_Config \<Rightarrow> 'e Runner" int int
  | Backoff "retry_Config \<Rightarrow> 'e Runner" int int bool
  | MetricsOf "Metrics option"
  | ProxyOf url_Parse string
  | Retries int int int
  | RetryConditionsOf "nat list"
  | ChainCallback "'e Callback"

fun the_option :: "'e option_spec \<Rightarrow> 'e Opt" where
  "the_option (DefaultTransport t) = WithDefaultTransport t"
| "the_option (CustomTransport tr) = WithTransport tr"
| "the_option (OAUTHTransport conf t) = WithOAUTHTransport conf t"
| "the_option (DefaultTransportWithProxy u) = WithDefaultTransportWithProxy u"
| "the_option (TimeoutOf d) = WithTimeout d"
| "the_option (UserAgent ua) = WithUserAgent ua"
| "the_option (BasicAuth u p) = WithBasicAuth u p"
| "the_option (AuthToken t) = WithAuthToken t"
| "the_option (CookieOf n v) = WithCookie n v"
| "the_option (HostURLOf parse u) = WithHostURL parse u"
| "the_option (CircuitBreaker new config) = WithCircuitBreaker new config"
| "the_option (LinearBackoff new n d) = WithLinearBackoff new n d"
| "the_option (ExponentialBackoff new n d) = WithExponentialBackoff new n d"
| "the_option (Backoff new n d e) = WithBackoff new n d e"
| "the_option (MetricsOf m) = WithMetrics m"
| "the_option (ProxyOf parse a) = WithProxy parse a"
| "the_option (Retries n d m) = WithRetries n d m"
| "the_option (RetryConditionsOf cs) = WithRetryConditions cs"
| "the_option (ChainCallback fn) = WithChainCallback fn"

text \<open>The callback an option registers, if it is a callback-registering option.\<close>

fun registered :: "'e option_spec \<Rightarrow> 'e Callback option" where
  "registered (CircuitBreaker new config) = Some (runnerCallback (new config))"
| "registered (LinearBackoff new n d) =
     Some (runnerCallback (new \<lparr>WaitBase = d, DisableBackoff = True, Times = n\<rparr>))"
| "registered (ExponentialBackoff new n d) =
     Some (runnerCallback (new \<lparr>WaitBase = d, DisableBackoff = False, Times = n\<rparr>))"
| "registered (Backoff new n d e) =
     Some (runnerCallback (new \<lparr>WaitBase = d, DisableBackoff = \<not> e, Times = n\<rparr>))"
| "registered (ChainCallback fn) = Some fn"
| "registered _ = None"

text \<open>
  The nesting the specification describes, for a list of callbacks: the head of the list
  is the outermost layer, the terminal action is innermost.
\<close>

fun nest :: "'e Callback list \<Rightarrow> 'e Callback" where
  "nest [] fn = fn"
| "nest (c # cs) fn = c (nest cs fn)"

section \<open>Strings and paths from the standard library\<close>

text \<open>\<^verbatim>\<open>strings.Replace(s, ".", "-", -1)\<close>: every full stop becomes a hyphen.\<close>

definition replace_dots :: "string \<Rightarrow> string" where
  "replace_dots s = map (\<lambda>c. if c = CHR ''.'' then CHR ''-'' else c) s"

text \<open>\<^verbatim>\<open>fmt.Sprintf("%d", n)\<close>: decimal digits, with a minus sign below zero.\<close>

definition digit_char :: "nat \<Rightarrow> char" where
  "digit_char d = char_of (48 + d)"

fun decimal :: "nat \<Rightarrow> string" where
  "decimal n = (if n < 10 then [digit_char n] else decimal (n div 10) @ [digit_char (n mod 10)])"

declare decimal.simps [simp del]

definition fmt_d :: "int \<Rightarrow> string" where
  "fmt_d i = (if i < 0 then CHR ''-'' # decimal (nat (- i)) else decimal (nat i))"

text \<open>
  \<^verbatim>\<open>path.Clean\<close>, following the standard library's loop over the path with its output
  buffer \<open>out\<close> and the index \<open>dotdot\<close> below which the buffer may not be cut.
  \<open>backtrack\<close> is the inner loop that drops the last element of the buffer: it is
  entered with \<open>w\<close> already decremented once.
\<close>

fun backtrack :: "string \<Rightarrow> nat \<Rightarrow> nat \<Rightarrow> nat" where
  "backtrack out dotdot 0 = 0"
| "backtrack out dotdot (Suc w) =
     (if Suc w > dotdot \<and> out ! Suc w \<noteq> CHR ''/'' then backtrack out dotdot w else Suc w)"

function clean_loop :: "bool \<Rightarrow> string \<Rightarrow> string \<Rightarrow> nat \<Rightarrow> string" where
  "clean_loop rooted [] out dotdot = out"
| "clean_loop rooted (c # rest) out dotdot =
     (if c = CHR ''/'' then clean_loop rooted rest out dotdot
      else if c = CHR ''.'' \<and> (rest = [] \<or> hd rest = CHR ''/'') then
        clean_loop rooted rest out dotdot
      else if c = CHR ''.'' \<and> hd rest = CHR ''.''
              \<and> (tl rest = [] \<or> hd (tl rest) = CHR ''/'') then
        (if length out > dotdot then
           clean_loop rooted (tl rest) (take (backtrack out dotdot (length out - 1)) out) dotdot
         else if \<not> rooted then
           (let out' = (if length out > 0 then out @ ''/'' else out) @ ''..''
            in clean_loop rooted (tl rest) out' (length out'))
         else clean_loop rooted (tl rest) out dotdot)
      else
        clean_loop rooted (dropWhile (\<lambda>x. x \<noteq> CHR ''/'') rest)
          ((if rooted \<and> length out \<noteq> 1 \<or> \<not> rooted \<and> length out \<noteq> 0
            then out @ ''/'' else out) @ c # takeWhile (\<lambda>x. x \<noteq> CHR ''/'') rest)
          dotdot)"
  by pat_completeness auto
termination
  by (relation "measure (\<lambda>(rooted, path, out, dotdot). length path)")
     (auto simp: length_dropWhile_le le_imp_less_Suc intro: le_less_trans[OF diff_le_self])

definition path_Clean :: "string \<Rightarrow> string" where
  "path_Clean path =
     (if path = [] then ''.''
      else
        (let rooted = (hd path = CHR ''/'');
             out = (if rooted then clean_loop True (tl path) ''/'' 1
                    else clean_loop False path [] 0)
         in if out = [] then ''.'' else out))"

text \<open>
  \<^verbatim>\<open>path.Join\<close>: empty elements are skipped until the buffer holds something, the
  others are joined with slashes, and the result is cleaned; all elements empty gives
  the empty string.
\<close>

definition join_step :: "string \<Rightarrow> string \<Rightarrow> string" where
  "join_step buf e =
     (if length buf > 0 \<or> e \<noteq> [] then (if length buf > 0 then buf @ ''/'' else buf) @ e
      else buf)"

definition path_Join :: "string list \<Rightarrow> string" where
  "path_Join elem =
     (if sum_list (map length elem) = 0 then [] else path_Clean (foldl join_step [] elem))"

section \<open>Requests and responses\<close>

text \<open>
  A resty response, as what its accessors \<^verbatim>\<open>StatusCode()\<close>, \<^verbatim>\<open>Header()\<close>,
  \<^verbatim>\<open>Body()\<close> and \<^verbatim>\<open>Cookies()\<close> return.
\<close>

record resty_Response =
  raw_StatusCode :: int
  raw_Header :: http_Header
  raw_Body :: string
  raw_Cookies :: "http_Cookie list"

text \<open>
  The \<^verbatim>\<open>Request\<close> struct. The resty request is what its \<^verbatim>\<open>Execute(method, url)\<close>
  does: it is library code that acts on the world and returns a response pointer that may
  be nil and an error that may be nil. The \<^verbatim>\<open>startTime\<close> field is mutable and lives
  in the world.
\<close>

type_synonym 'e resty_Request =
  "string \<Rightarrow> string \<Rightarrow> 'e world \<Rightarrow> (resty_Response option \<times> error option) \<times> 'e world"

record 'e Request =
  req_alias :: string
  chainCallback_field :: "'e Callback option"
  req_hostURL :: "URL option"
  req_metrics :: "Metrics option"
  restyRequest :: "'e resty_Request"

definition NewRequest :: "'e HTTPClient \<Rightarrow> 'e resty_Request \<Rightarrow> 'e Request" where
  "NewRequest c newRestyRequest =
     \<lparr>req_alias = [], chainCallback_field = callbackChain c, req_hostURL = hostURL c,
      req_metrics = metrics c, restyRequest = newRestyRequest\<rparr>"

definition SetAlias :: "string \<Rightarrow> 'e Request \<Rightarrow> 'e Request" where
  "SetAlias a r = r\<lparr>req_alias := a\<rparr>"

text \<open>The accessors of \<^verbatim>\<open>Response\<close>.\<close>

definition StatusCode :: "Response \<Rightarrow> int" where
  "StatusCode r = statusCode r"

definition Body :: "Response \<Rightarrow> string" where
  "Body r = body r"

definition Header_of :: "Response \<Rightarrow> http_Header" where
  "Header_of r = header r"

definition Cookies_of :: "Response \<Rightarrow> http_Cookie list" where
  "Cookies_of r = cookies r"

definition ResponseTime :: "Response \<Rightarrow> int" where
  "ResponseTime r = responseTime r"

text \<open>\<^verbatim>\<open>Response.Cookie\<close>: the first cookie with the name, nil when there is none.\<close>

fun find_cookie :: "http_Cookie list \<Rightarrow> string \<Rightarrow> http_Cookie option" where
  "find_cookie [] name = None"
| "find_cookie (c # cs) name = (if Name c = name then Some c else find_cookie cs name)"

definition Cookie :: "Response \<Rightarrow> string \<Rightarrow> http_Cookie option" where
  "Cookie r name = find_cookie (cookies r) name"

text \<open>
  \<^verbatim>\<open>wrapResponse\<close>: \<^verbatim>\<open>time.Since(request.startTime)\<close> is the clock minus the
  start time stored in the request.
\<close>

definition wrapResponse :: "'e world \<Rightarrow> resty_Response \<Rightarrow> Response" where
  "wrapResponse w restyResponse =
     \<lparr>statusCode = raw_StatusCode restyResponse,
      body = raw_Body restyResponse,
      header = raw_Header restyResponse,
      cookies = raw_Cookies restyResponse,
      responseTime = clock w - startTime w\<rparr>"

section \<open>Execution and metrics\<close>

text \<open>
  The calls the reporter makes on the sink. \<^verbatim>\<open>PushToSeries\<close> receives
  \<^verbatim>\<open>ResponseTime().Seconds()\<close>, a float64; the model keeps the duration it is
  computed from.
\<close>

datatype metric_call =
    PushToSeries string int
  | IncrCounter string
  | IncrCounterWithAttrs string "string \<rightharpoonup> string"

text \<open>The body of the goroutine in \<^verbatim>\<open>registerMetrics\<close>: its calls, in program order.\<close>

definition report :: "string \<Rightarrow> Response option \<Rightarrow> error option \<Rightarrow> metric_call list" where
  "report key resp err =
     (case resp of
        None \<Rightarrow> []
      | Some r \<Rightarrow>
          PushToSeries (key @ ''.'' @ ''response_time'') (ResponseTime r) #
          (if statusCode r \<noteq> 0
           then [IncrCounter (key @ ''.status.'' @ fmt_d (StatusCode r))] else []))
     @ (case err of
          None \<Rightarrow> []
        | Some e \<Rightarrow>
            (if errors_Is_ErrCircuitOpen e then [IncrCounter (key @ ''.'' @ ''circuit_open'')]
             else [IncrCounter (key @ ''.'' @ ''errors'')]))
     @ [IncrCounterWithAttrs (key @ ''.'' @ ''total'')
          (case resp of
             None \<Rightarrow> Map.empty
           | Some r \<Rightarrow>
               (if statusCode r \<noteq> 0 then [''status'' \<mapsto> fmt_d (StatusCode r)]
                else Map.empty))]"

text \<open>
  \<^verbatim>\<open>registerMetrics\<close> runs \<open>f\<close>, starts the reporter when a sink is configured, and
  returns what \<open>f\<close> returned. The third component is the sink with the calls the started
  goroutine makes on it; a metrics method returns nothing.
\<close>

definition registerMetrics ::
  "string \<Rightarrow> Metrics option \<Rightarrow> 'e thunk \<Rightarrow> 'e world
   \<Rightarrow> result \<times> 'e world \<times> (Metrics \<times> metric_call list) option" where
  "registerMetrics key metrics_sink f w =
     (case f w of
        ((resp, err), w') \<Rightarrow>
          ((resp, err), w',
           (case metrics_sink of
              None \<Rightarrow> None
            | Some m \<Rightarrow> Some (m, report key resp err))))"

text \<open>The alias computed at the start of \<^verbatim>\<open>Execute\<close>.\<close>

definition metricsAlias :: "'e Request \<Rightarrow> string \<Rightarrow> string \<Rightarrow> string" where
  "metricsAlias r method url =
     replace_dots
       (if length (req_alias r) > 0 then req_alias r
        else (case req_hostURL r of
                Some u \<Rightarrow> method @ ''.'' @ path_Join [Hostname u, url]
              | None \<Rightarrow> url))"

text \<open>The closure \<^verbatim>\<open>execute\<close> inside \<^verbatim>\<open>Execute\<close>: the terminal action.\<close>

definition execute :: "'e Request \<Rightarrow> string \<Rightarrow> string \<Rightarrow> 'e thunk" where
  "execute r method url w =
     (case restyRequest r method url (w\<lparr>startTime := clock w\<rparr>) of
        ((restyResponse, err), w') \<Rightarrow>
          (case restyResponse of
             None \<Rightarrow> ((None, err), w')
           | Some raw \<Rightarrow> ((Some (wrapResponse w' raw), err), w')))"

text \<open>
  \<^verbatim>\<open>Execute\<close>. Calling a nil \<^verbatim>\<open>chainCallback\<close> is a run-time panic; a request made
  by \<^verbatim>\<open>NewRequest\<close> on a client from \<^verbatim>\<open>newClient\<close> never has one.
\<close>

datatype panic = NilDereference | TypeAssertion

definition Execute ::
  "'e Request \<Rightarrow> string \<Rightarrow> string \<Rightarrow> 'e world
   \<Rightarrow> panic + result \<times> 'e world \<times> (Metrics \<times> metric_call list) option" where
  "Execute r method url w =
     (case chainCallback_field r of
        None \<Rightarrow> Inl NilDereference
      | Some chain \<Rightarrow>
          Inr (registerMetrics (metricsAlias r method url) (req_metrics r)
                 (\<lambda>w1. chain (execute r method url) w1) w))"

text \<open>
  The alias as the specification words it, for comparison with \<open>metricsAlias\<close>: the
  explicit alias, else \<^verbatim>\<open><method>.<hostname>/<url>\<close> when a host URL is configured,
  else the raw url; full stops replaced by hyphens.
\<close>

definition spec_metricsAlias :: "'e Request \<Rightarrow> string \<Rightarrow> string \<Rightarrow> string" where
  "spec_metricsAlias r method url =
     replace_dots
       (if req_alias r \<noteq> [] then req_alias r
        else (case req_hostURL r of
                Some u \<Rightarrow> method @ ''.'' @ Hostname u @ ''/'' @ url
              | None \<Rightarrow> url))"

text \<open>
  A path element that \<^verbatim>\<open>path.Clean\<close> keeps as it is: not empty, without a slash, and
  neither \<^verbatim>\<open>.\<close> nor \<^verbatim>\<open>..\<close>.
\<close>

definition plain_segment :: "string \<Rightarrow> bool" where
  "plain_segment s = (s \<noteq> [] \<and> CHR ''/'' \<notin> set s \<and> s \<noteq> ''.'' \<and> s \<noteq> ''..'')"

text \<open>A url made of plain elements, each behind one slash.\<close>

definition slashed :: "string list \<Rightarrow> string" where
  "slashed segs = concat (map (\<lambda>s. CHR ''/'' # s) segs)"

section \<open>The decorating transport\<close>

text \<open>
  A value of type \<^verbatim>\<open>any\<close> as \<^verbatim>\<open>ctx.Value\<close> returns it: nil when nothing is stored
  under the key, otherwise a value with its dynamic type. A context is its \<^verbatim>\<open>Value\<close>
  method.
\<close>

datatype any = Nil_value | String_value string | Int_value int | Bool_value bool

type_synonym context_Context = "string \<Rightarrow> any"

definition contextRequestIDKey :: string where
  "contextRequestIDKey = ''request.id''"

text \<open>\<^verbatim>\<open>requestID\<close>: the type assertion \<^verbatim>\<open>value.(string)\<close> panics on any other type.\<close>

definition requestID :: "context_Context \<Rightarrow> panic + string" where
  "requestID ctx =
     (case ctx contextRequestIDKey of
        Nil_value \<Rightarrow> Inr []
      | String_value s \<Rightarrow> Inr s
      | _ \<Rightarrow> Inl TypeAssertion)"

text \<open>
  An outbound \<^verbatim>\<open>http.Request\<close>: its context and its header, which the
  \<^verbatim>\<open>RoundTripper\<close> contract requires to be initialised; the other fields are not read
  by the transport and sit in the record's extension.
\<close>

record http_Request =
  Context :: context_Context
  Request_Header :: http_Header

definition setRequestIDHeader ::
  "context_Context \<Rightarrow> 'a http_Request_scheme \<Rightarrow> panic + 'a http_Request_scheme" where
  "setRequestIDHeader ctx req =
     (case requestID ctx of
        Inl p \<Rightarrow> Inl p
      | Inr rID \<Rightarrow>
          if rID = [] then Inr req
          else Inr (req\<lparr>Request_Header := Header_Add ''X-Request-ID'' rID (Request_Header req)\<rparr>))"

text \<open>
  \<^verbatim>\<open>Transport.RoundTrip\<close>. The wrapped round-tripper is library or caller code: a
  function of the request and a state \<open>'s\<close>, returning a response pointer and an error,
  either of which may be nil. The request is changed in place, so it is returned too.
\<close>

definition RoundTrip ::
  "('a http_Request_scheme \<Rightarrow> 's \<Rightarrow> ('r option \<times> error option) \<times> 's)
   \<Rightarrow> 'a http_Request_scheme \<Rightarrow> 's
   \<Rightarrow> panic + 'a http_Request_scheme \<times> ('r option \<times> error option) \<times> 's" where
  "RoundTrip wrapped req s =
     (case setRequestIDHeader (Context req) req of
        Inl p \<Rightarrow> Inl p
      | Inr req' \<Rightarrow>
          (case wrapped req' s of
             ((resp, err), s') \<Rightarrow>
               (case err of
                  Some e \<Rightarrow> Inr (req', (None, Some e), s')
                | None \<Rightarrow> Inr (req', (resp, err), s'))))"

section \<open>Fields written by an option\<close>

text \<open>
  The fields of the client, and of the resty client inside it, that an option assigns,
  read off the option's body and the setters it calls. \<^verbatim>\<open>WithProxy\<close> rewrites the
  installed transport and the stored proxy URL.
\<close>

datatype field =
    F_Transport | F_Timeout | F_Header | F_UserInfo | F_Token | F_Cookies | F_HostURL
  | F_RetryCount | F_RetryWaitTime | F_RetryMaxWaitTime | F_RetryConditions | F_proxyURL
  | F_hostURL | F_metrics | F_callbackChain

fun writes :: "'e option_spec \<Rightarrow> field list" where
  "writes (DefaultTransport t) = [F_Transport]"
| "writes (CustomTransport tr) = [F_Transport]"
| "writes (OAUTHTransport conf t) = [F_Transport]"
| "writes (DefaultTransportWithProxy u) = [F_Transport]"
| "writes (TimeoutOf d) = [F_Timeout]"
| "writes (UserAgent ua) = [F_Header]"
| "writes (BasicAuth u p) = [F_UserInfo]"
| "writes (AuthToken t) = [F_Token]"
| "writes (CookieOf n v) = [F_Cookies]"
| "writes (HostURLOf parse u) = [F_hostURL, F_HostURL]"
| "writes (CircuitBreaker new config) = [F_callbackChain]"
| "writes (LinearBackoff new n d) = [F_RetryCount, F_callbackChain]"
| "writes (ExponentialBackoff new n d) = [F_RetryCount, F_callbackChain]"
| "writes (Backoff new n d e) = [F_RetryCount, F_callbackChain]"
| "writes (MetricsOf m) = [F_metrics]"
| "writes (ProxyOf parse a) = [F_Transport, F_proxyURL]"
| "writes (Retries n d m) = [F_RetryCount, F_RetryWaitTime, F_RetryMaxWaitTime]"
| "writes (RetryConditionsOf cs) = [F_RetryConditions]"
| "writes (ChainCallback fn) = [F_callbackChain]"

definition disjoint_writes :: "'e option_spec \<Rightarrow> 'e option_spec \<Rightarrow> bool" where
  "disjoint_writes a b = list_all (\<lambda>f. f \<notin> set (writes b)) (writes a)"

section \<open>Fixtures\<close>

text \<open>
  What the handler shared by the repository's tests answers (request_test.go): status
  200, body \<^verbatim>\<open>OK\<close>, one header and one cookie.
\<close>

definition test_raw :: resty_Response where
  "test_raw =
     \<lparr>raw_StatusCode = 200,
      raw_Header = [''Testheader'' \<mapsto> [''test'']],
      raw_Body = ''OK'',
      raw_Cookies =
        [\<lparr>Name = ''testCookie'', Value = ''test'', Raw = ''testCookie=test'', MaxAge = 0\<rparr>]\<rparr>"

text \<open>
  Two resty requests for concrete runs: one that reaches the test server after five
  clock ticks, one whose connection fails.
\<close>

definition served :: "unit resty_Request" where
  "served method url w = ((Some test_raw, None), w\<lparr>clock := clock w + 5\<rparr>)"

definition refused :: "unit resty_Request" where
  "refused method url w = ((None, Some (Err ''connection refused'')), w\<lparr>clock := clock w + 1\<rparr>)"

definition test_request :: "unit resty_Request \<Rightarrow> unit Request" where
  "test_request rr =
     \<lparr>req_alias = [], chainCallback_field = Some noopCallback,
      req_hostURL = Some (URL ''host.example''), req_metrics = Some (Sink 0),
      restyRequest = rr\<rparr>"

definition world0 :: "unit world" where
  "world0 = \<lparr>clock = 100, startTime = 0, env = ()\<rparr>"

text \<open>
  Wrapped round-trippers for concrete runs, with responses named by their status: one
  that answers 200, and one that returns a response together with an error. A context
  without values, and an outbound request with one header.
\<close>

definition answering :: "http_Request \<Rightarrow> unit \<Rightarrow> (int option \<times> error option) \<times> unit" where
  "answering req s = ((Some 200, None), s)"

definition failing_with_response ::
  "http_Request \<Rightarrow> unit \<Rightarrow> (int option \<times> error option) \<times> unit" where
  "failing_with_response req s = ((Some 502, Some (Err ''bad gateway'')), s)"

definition background :: context_Context where
  "background key = Nil_value"

definition outbound :: "context_Context \<Rightarrow> http_Request" where
  "outbound ctx = \<lparr>Context = ctx, Request_Header = [''Accept'' \<mapsto> [''*/*'']]\<rparr>"

text \<open>
  A resty client before any setter has been called, and a stand-in for \<^verbatim>\<open>url.Parse\<close>
  for concrete runs: it accepts the host URL of the specification's example and rejects
  every other string.
\<close>

definition resty_New :: resty_Client where
  "resty_New =
     \<lparr>Transport_field = None, Timeout = 0, Header = Map.empty, UserInfo = None, Token = [],
      Cookies = [], HostURL = [], RetryCount = 0, RetryWaitTime = 0, RetryMaxWaitTime = 0,
      RetryConditions = [], proxyURL_field = None\<rparr>"

definition parse_example :: url_Parse where
  "parse_example rawURL =
     (if rawURL = ''http://host.example'' then Some (URL ''host.example'') else None)"

definition plain_Transport :: http_Transport where
  "plain_Transport =
     \<lparr>Proxy = ProxyFromEnvironment, DialTimeout = 0, DialKeepAlive = 0, MaxIdleConns = 0,
      MaxIdleConnsPerHost = 0, IdleConnTimeout = 0, TLSHandshakeTimeout = 0\<rparr>"

section \<open>Verification\<close>

subsection \<open>The callback chain\<close>

lemma the_option_chain:
  "callbackChain c = Some prev \<Longrightarrow>
   callbackChain (the_option opt c) =
     Some (case registered opt of None \<Rightarrow> prev | Some new \<Rightarrow> (\<lambda>fn. new (prev fn)))"
  by (cases opt)
     (simp_all add: chainCallback_def WithDefaultTransport_def WithTransport_def
        WithOAUTHTransport_def WithDefaultTransportWithProxy_def setTransport_def
        WithTimeout_def WithUserAgent_def WithBasicAuth_def WithAuthToken_def WithCookie_def
        WithHostURL_def WithCircuitBreaker_def WithBackoff_def WithLinearBackoff_def
        WithExponentialBackoff_def WithMetrics_def WithProxy_def WithRetries_def
        WithRetryConditions_def WithChainCallback_def)

lemma foldl_options_chain:
  "callbackChain c = Some (nest cs0) \<Longrightarrow>
   callbackChain (foldl (\<lambda>client option. option client) c (map the_option os)) =
     Some (nest (rev (List.map_filter registered os) @ cs0))"
proof (induction os arbitrary: c cs0)
  case Nil
  then show ?case by simp
next
  case (Cons opt os)
  show ?case
  proof (cases "registered opt")
    case None
    with Cons.prems have "callbackChain (the_option opt c) = Some (nest cs0)"
      by (simp add: the_option_chain)
    from Cons.IH[OF this] None show ?thesis by simp
  next
    case (Some new)
    have "nest (new # cs0) = (\<lambda>fn. new (nest cs0 fn))"
      by (simp add: fun_eq_iff)
    with Some Cons.prems have "callbackChain (the_option opt c) = Some (nest (new # cs0))"
      by (simp add: the_option_chain)
    from Cons.IH[OF this] Some show ?thesis by simp
  qed
qed

lemma noopCallback_nest: "noopCallback = nest []"
  by (simp add: fun_eq_iff noopCallback_def)

lemma nest_Nil_id: "nest [] = (\<lambda>fn. fn)"
  by (simp add: fun_eq_iff)

text \<open>
  Claim C1. Whatever options build the client, its chain is the nesting of the registered
  callbacks with the last registered one outermost and the terminal action innermost:
  for callbacks registered in the order \<open>c1, ..., cn\<close> the chain maps \<open>fn\<close> to
  \<open>cn (... (c1 fn))\<close>. Options that register no callback leave the chain alone. With
  no callback registered the chain is the identity on \<open>fn\<close>.
\<close>

theorem callback_chain_nesting:
  "callbackChain (newClient restyClient oauth (map the_option os)) =
     Some (nest (rev (List.map_filter registered os)))
   \<and> callbackChain (newClient restyClient oauth (map WithChainCallback cs)) =
     Some (nest (rev cs))
   \<and> callbackChain (newClient restyClient oauth ([] :: 'e Opt list)) = Some (\<lambda>fn :: 'e thunk. fn)"
proof -
  have a: "map the_option (map ChainCallback cs) = map WithChainCallback cs"
    by (induction cs) simp_all
  have b: "List.map_filter registered (map ChainCallback cs) = cs"
    by (induction cs) simp_all
  have "callbackChain (newClient restyClient oauth (map the_option (map ChainCallback cs))) =
     Some (nest (rev (List.map_filter registered (map ChainCallback cs)) @ []))"
    unfolding newClient_def by (rule foldl_options_chain) (simp add: noopCallback_nest)
  then have c: "callbackChain (newClient restyClient oauth (map WithChainCallback cs)) =
     Some (nest (rev cs))"
    unfolding a b by simp
  have d: "callbackChain (newClient restyClient oauth (map the_option os)) =
     Some (nest (rev (List.map_filter registered os) @ []))"
    unfolding newClient_def by (rule foldl_options_chain) (simp add: noopCallback_nest)
  have e: "callbackChain (newClient restyClient oauth ([] :: 'e Opt list)) =
      Some (\<lambda>fn :: 'e thunk. fn)"
    by (simp add: newClient_def noopCallback_nest nest_Nil_id)
  from c d e show ?thesis by simp
qed

subsection \<open>The metrics alias\<close>

lemma clean_loop_segment:
  assumes "plain_segment s" and "rest = [] \<or> hd rest = CHR ''/''"
  shows "clean_loop False (s @ rest) out dotdot =
         clean_loop False rest ((if out \<noteq> [] then out @ ''/'' else out) @ s) dotdot"
proof -
  from assms(1) obtain c t where s: "s = c # t" and c: "c \<noteq> CHR ''/''"
    and t: "CHR ''/'' \<notin> set t"
    by (cases s) (auto simp: plain_segment_def)
  have tw: "takeWhile (\<lambda>x. x \<noteq> CHR ''/'') (t @ rest) = t"
    using t assms(2) by (cases rest) (auto simp: takeWhile_append)
  have dw: "dropWhile (\<lambda>x. x \<noteq> CHR ''/'') (t @ rest) = rest"
    using t assms(2) by (cases rest) (auto simp: dropWhile_append)
  have n1: "\<not> (c = CHR ''.'' \<and> (t @ rest = [] \<or> hd (t @ rest) = CHR ''/''))"
    using assms s t by (cases t) (auto simp: plain_segment_def)
  have n2: "\<not> (c = CHR ''.'' \<and> hd (t @ rest) = CHR ''.''
             \<and> (tl (t @ rest) = [] \<or> hd (tl (t @ rest)) = CHR ''/''))"
  proof (cases t)
    case Nil
    with assms s show ?thesis by (auto simp: plain_segment_def)
  next
    case (Cons d t2)
    with assms s t show ?thesis by (cases t2) (auto simp: plain_segment_def)
  qed
  have "clean_loop False (c # t @ rest) out dotdot =
        clean_loop False (dropWhile (\<lambda>x. x \<noteq> CHR ''/'') (t @ rest))
          ((if False \<and> length out \<noteq> 1 \<or> \<not> False \<and> length out \<noteq> 0
            then out @ ''/'' else out) @ c # takeWhile (\<lambda>x. x \<noteq> CHR ''/'') (t @ rest))
          dotdot"
    by (subst clean_loop.simps) (simp only: c n1 n2 if_False)
  then show ?thesis
    unfolding s by (simp add: tw dw)
qed

lemma clean_loop_slashed:
  "list_all plain_segment segs \<Longrightarrow> out \<noteq> [] \<Longrightarrow>
   clean_loop False (slashed segs) out dotdot = out @ slashed segs"
proof (induction segs arbitrary: out)
  case Nil
  then show ?case by (simp add: slashed_def)
next
  case (Cons s segs)
  have r: "slashed segs = [] \<or> hd (slashed segs) = CHR ''/''"
    by (cases segs) (simp_all add: slashed_def)
  have "clean_loop False (slashed (s # segs)) out dotdot =
        clean_loop False (s @ slashed segs) out dotdot"
    by (simp add: slashed_def)
  also have "\<dots> = clean_loop False (slashed segs) (out @ ''/'' @ s) dotdot"
    using Cons.prems r by (simp add: clean_loop_segment)
  also have "\<dots> = (out @ ''/'' @ s) @ slashed segs"
    using Cons.prems by (intro Cons.IH) simp_all
  finally show ?case by (simp add: slashed_def)
qed

lemma path_Join_plain:
  assumes "plain_segment h" and "list_all plain_segment segs"
  shows "path_Join [h, slashed segs] = h @ slashed segs"
proof -
  from assms(1) have h: "h \<noteq> []" "hd h \<noteq> CHR ''/''"
    by (cases h; auto simp: plain_segment_def)+
  have "foldl join_step [] [h, slashed segs] = h @ CHR ''/'' # slashed segs"
    using h by (simp add: join_step_def)
  moreover have "clean_loop False (h @ CHR ''/'' # slashed segs) [] 0 = h @ slashed segs"
  proof -
    have "clean_loop False (h @ CHR ''/'' # slashed segs) [] 0 =
          clean_loop False (CHR ''/'' # slashed segs) h 0"
      using assms(1) by (simp add: clean_loop_segment)
    also have "\<dots> = clean_loop False (slashed segs) h 0" by simp
    also have "\<dots> = h @ slashed segs"
      using assms(2) h by (simp add: clean_loop_slashed)
    finally show ?thesis .
  qed
  ultimately show ?thesis
    using h by (simp add: path_Join_def path_Clean_def)
qed

lemma replace_dots_no_dot: "CHR ''.'' \<notin> set (replace_dots s)"
  by (auto simp: replace_dots_def)

text \<open>
  Claim C2, amended. The alias is the explicit alias when one is set; otherwise, with a
  host URL, the method, a full stop and \<^verbatim>\<open>path.Join(hostname, url)\<close>; otherwise the
  raw url; and in every case each full stop is replaced by a hyphen, so the alias holds
  none. \<^verbatim>\<open>path.Join\<close> cleans the joined path, so the alias is the method, the
  hostname and the url written one after the other exactly when the path is already
  clean: here, for a plain hostname and a url of plain elements each behind one slash.
\<close>

theorem metricsAlias_by_path_Join:
  "metricsAlias r method url =
     replace_dots
       (if req_alias r \<noteq> [] then req_alias r
        else (case req_hostURL r of
                Some u \<Rightarrow> method @ ''.'' @ path_Join [Hostname u, url]
              | None \<Rightarrow> url))
   \<and> CHR ''.'' \<notin> set (metricsAlias r method url)
   \<and> (req_alias r = [] \<longrightarrow> req_hostURL r = Some u \<longrightarrow> plain_segment (Hostname u) \<longrightarrow>
        list_all plain_segment segs \<longrightarrow>
        metricsAlias r method (slashed segs) =
          replace_dots (method @ ''.'' @ Hostname u @ slashed segs))"
  by (simp add: metricsAlias_def replace_dots_no_dot path_Join_plain)

text \<open>
  The example of the specification: host URL \<^verbatim>\<open>http://host.example\<close>, no alias,
  \<^verbatim>\<open>GET /path\<close>.
\<close>

theorem metricsAlias_by_path_Join_witness:
  "metricsAlias
     \<lparr>req_alias = [], chainCallback_field = None, req_hostURL = Some (URL ''host.example''),
      req_metrics = None, restyRequest = (\<lambda>m u (w :: unit world). ((None, None), w))\<rparr>
     ''GET'' ''/path'' = ''GET-host-example/path''"
proof -
  let ?r = "\<lparr>req_alias = [], chainCallback_field = None,
      req_hostURL = Some (URL ''host.example''),
      req_metrics = None, restyRequest = (\<lambda>m u (w :: unit world). ((None, None), w))\<rparr>"
  have "req_alias ?r = [] \<longrightarrow> req_hostURL ?r = Some (URL ''host.example'') \<longrightarrow>
        plain_segment (Hostname (URL ''host.example'')) \<longrightarrow>
        list_all plain_segment [''path''] \<longrightarrow>
        metricsAlias ?r ''GET'' (slashed [''path'']) =
          replace_dots (''GET'' @ ''.'' @ Hostname (URL ''host.example'') @ slashed [''path''])"
    using metricsAlias_by_path_Join [of ?r "''GET''" "[]" "URL ''host.example''" "[''path'']"]
    by (rule conjunct2 [THEN conjunct2])
  then show ?thesis
    by (simp add: plain_segment_def slashed_def replace_dots_def)
qed

text \<open>
  The alias is not always \<^verbatim>\<open><method>.<hostname>/<url>\<close> with the full stops
  replaced: for the url \<^verbatim>\<open>v1/../ping\<close> the join resolves the parent element.
\<close>

theorem metricsAlias_counterexample:
  "metricsAlias
     \<lparr>req_alias = [], chainCallback_field = None, req_hostURL = Some (URL ''host.example''),
      req_metrics = None, restyRequest = (\<lambda>m u (w :: unit world). ((None, None), w))\<rparr>
     ''GET'' ''v1/../ping'' = ''GET-host-example/ping''
   \<and> spec_metricsAlias
     \<lparr>req_alias = [], chainCallback_field = None, req_hostURL = Some (URL ''host.example''),
      req_metrics = None, restyRequest = (\<lambda>m u (w :: unit world). ((None, None), w))\<rparr>
     ''GET'' ''v1/../ping'' = ''GET-host-example/v1/--/ping''"
  by (simp add: metricsAlias_def spec_metricsAlias_def replace_dots_def path_Join_def
      join_step_def path_Clean_def)

subsection \<open>The terminal action\<close>

text \<open>
  Claim C5. When the underlying call yields no response object, the terminal action
  returns nil with the call's error and builds no \<^verbatim>\<open>Response\<close>; otherwise it returns
  the wrapped response together with whatever error the call produced, nil or not.
\<close>

theorem terminal_action:
  "(restyRequest r method url (w\<lparr>startTime := clock w\<rparr>) = ((None, err), w') \<longrightarrow>
      execute r method url w = ((None, err), w'))
   \<and> (restyRequest r method url (w\<lparr>startTime := clock w\<rparr>) = ((Some raw, err), w') \<longrightarrow>
      execute r method url w = ((Some (wrapResponse w' raw), err), w'))"
  by (simp add: execute_def)

text \<open>A refused connection and a served request, run from \<open>world0\<close>.\<close>

theorem terminal_action_witness:
  "execute (test_request refused) ''GET'' ''/path'' world0 =
     ((None, Some (Err ''connection refused'')), \<lparr>clock = 101, startTime = 100, env = ()\<rparr>)
   \<and> execute (test_request served) ''GET'' ''/path'' world0 =
     ((Some (wrapResponse \<lparr>clock = 105, startTime = 100, env = ()\<rparr> test_raw), None),
      \<lparr>clock = 105, startTime = 100, env = ()\<rparr>)"
  using terminal_action [of "test_request refused" "''GET''" "''/path''" world0
      "Some (Err ''connection refused'')" "\<lparr>clock = 101, startTime = 100, env = ()\<rparr>"]
    terminal_action [of "test_request served" "''GET''" "''/path''" world0
      None "\<lparr>clock = 105, startTime = 100, env = ()\<rparr>" test_raw]
  by (simp add: test_request_def refused_def served_def world0_def)

subsection \<open>Metrics\<close>

text \<open>
  Claim C3, amended. Without a sink nothing is emitted. With a sink the reporter makes
  exactly these calls: the timing sample \<^verbatim>\<open><alias>.response_time\<close> with the response
  time when the response is not nil (and none when it is nil); the counter
  \<^verbatim>\<open><alias>.status.<code>\<close> when the response is not nil and its status is not zero;
  when the error is not nil, the counter \<^verbatim>\<open><alias>.circuit_open\<close> if the error is or
  wraps the circuit-open sentinel and \<^verbatim>\<open><alias>.errors\<close> otherwise; and always the
  counter \<^verbatim>\<open><alias>.total\<close>, whose attributes hold \<^verbatim>\<open>status\<close> exactly when the
  status counter was emitted.
\<close>

theorem reporter_calls:
  "registerMetrics key None f w = (fst (f w), snd (f w), None)
   \<and> (\<exists>calls. registerMetrics key (Some m) f w = (fst (f w), snd (f w), Some (m, calls))
        \<and> calls = report key (fst (fst (f w))) (snd (fst (f w))))
   \<and> (PushToSeries n d \<in> set (report key resp err) \<longleftrightarrow>
        (\<exists>r. resp = Some r \<and> n = key @ ''.response_time'' \<and> d = ResponseTime r))
   \<and> (IncrCounter n \<in> set (report key resp err) \<longleftrightarrow>
        (\<exists>r. resp = Some r \<and> StatusCode r \<noteq> 0 \<and> n = key @ ''.status.'' @ fmt_d (StatusCode r))
        \<or> (\<exists>e. err = Some e \<and> errors_Is_ErrCircuitOpen e \<and> n = key @ ''.circuit_open'')
        \<or> (\<exists>e. err = Some e \<and> \<not> errors_Is_ErrCircuitOpen e \<and> n = key @ ''.errors''))
   \<and> (IncrCounterWithAttrs n attrs \<in> set (report key resp err) \<longleftrightarrow>
        n = key @ ''.total'' \<and>
        attrs = (case resp of
                   None \<Rightarrow> Map.empty
                 | Some r \<Rightarrow> if StatusCode r \<noteq> 0 then [''status'' \<mapsto> fmt_d (StatusCode r)]
                             else Map.empty))
   \<and> length (report key resp err) =
        (case resp of None \<Rightarrow> 0 | Some r \<Rightarrow> if StatusCode r \<noteq> 0 then 2 else 1)
        + (case err of None \<Rightarrow> 0 | Some e \<Rightarrow> 1) + 1"
proof -
  have a: "registerMetrics key None f w = (fst (f w), snd (f w), None)"
    by (simp add: registerMetrics_def split: prod.splits)
  have b: "\<exists>calls. registerMetrics key (Some m) f w = (fst (f w), snd (f w), Some (m, calls))
        \<and> calls = report key (fst (fst (f w))) (snd (fst (f w)))"
    by (simp add: registerMetrics_def split: prod.splits)
  have c: "PushToSeries n d \<in> set (report key resp err) \<longleftrightarrow>
        (\<exists>r. resp = Some r \<and> n = key @ ''.response_time'' \<and> d = ResponseTime r)"
    by (auto simp: report_def split: option.splits)
  have d: "IncrCounter n \<in> set (report key resp err) \<longleftrightarrow>
        (\<exists>r. resp = Some r \<and> StatusCode r \<noteq> 0 \<and> n = key @ ''.status.'' @ fmt_d (StatusCode r))
        \<or> (\<exists>e. err = Some e \<and> errors_Is_ErrCircuitOpen e \<and> n = key @ ''.circuit_open'')
        \<or> (\<exists>e. err = Some e \<and> \<not> errors_Is_ErrCircuitOpen e \<and> n = key @ ''.errors'')"
    by (auto simp: report_def StatusCode_def split: option.splits)
  have e: "IncrCounterWithAttrs n attrs \<in> set (report key resp err) \<longleftrightarrow>
        n = key @ ''.total'' \<and>
        attrs = (case resp of
                   None \<Rightarrow> Map.empty
                 | Some r \<Rightarrow> if StatusCode r \<noteq> 0 then [''status'' \<mapsto> fmt_d (StatusCode r)]
                             else Map.empty)"
    by (auto simp: report_def StatusCode_def split: option.splits)
  have f: "length (report key resp err) =
        (case resp of None \<Rightarrow> 0 | Some r \<Rightarrow> if StatusCode r \<noteq> 0 then 2 else 1)
        + (case err of None \<Rightarrow> 0 | Some e \<Rightarrow> 1) + 1"
    by (simp add: report_def StatusCode_def split: option.splits)
  from a b c d e f show ?thesis by blast
qed

text \<open>The calls for a served request with status 200.\<close>

theorem reporter_calls_witness:
  "registerMetrics ''k'' (Some (Sink 0)) (execute (test_request served) ''GET'' ''/path'') world0 =
     ((Some (wrapResponse \<lparr>clock = 105, startTime = 100, env = ()\<rparr> test_raw), None),
      \<lparr>clock = 105, startTime = 100, env = ()\<rparr>,
      Some (Sink 0,
        [PushToSeries ''k.response_time'' 5, IncrCounter ''k.status.200'',
         IncrCounterWithAttrs ''k.total'' [''status'' \<mapsto> ''200'']]))"
proof -
  have d: "fmt_d 200 = ''200''" by code_simp
  have e: "execute (test_request served) ''GET'' ''/path'' world0 =
     ((Some (wrapResponse \<lparr>clock = 105, startTime = 100, env = ()\<rparr> test_raw), None),
      \<lparr>clock = 105, startTime = 100, env = ()\<rparr>)"
    by (simp add: execute_def test_request_def served_def world0_def)
  from reporter_calls [of "''k''" "execute (test_request served) ''GET'' ''/path''" world0 "Sink 0"]
  obtain calls where
    "registerMetrics ''k'' (Some (Sink 0)) (execute (test_request served) ''GET'' ''/path'') world0 =
       (fst (execute (test_request served) ''GET'' ''/path'' world0),
        snd (execute (test_request served) ''GET'' ''/path'' world0), Some (Sink 0, calls))"
    and "calls = report ''k'' (fst (fst (execute (test_request served) ''GET'' ''/path'' world0)))
                   (snd (fst (execute (test_request served) ''GET'' ''/path'' world0)))"
    by blast
  then show ?thesis
    by (simp add: e report_def wrapResponse_def test_raw_def d StatusCode_def ResponseTime_def)
qed

text \<open>
  A call that ends with no response and a connection error: the reporter emits the error
  counter and the total, and no timing sample.
\<close>

theorem reporter_calls_counterexample:
  "registerMetrics ''k'' (Some (Sink 0))
     (\<lambda>w. ((None, Some (Err ''connection refused'')), w))
     \<lparr>clock = 0, startTime = 0, env = ()\<rparr>
   = ((None, Some (Err ''connection refused'')), \<lparr>clock = 0, startTime = 0, env = ()\<rparr>,
      Some (Sink 0, [IncrCounter ''k.errors'', IncrCounterWithAttrs ''k.total'' Map.empty]))"
  by (simp add: registerMetrics_def report_def)

text \<open>
  Claim C6. Whatever the sink, and also without one, \<^verbatim>\<open>registerMetrics\<close> returns the
  pair that \<open>f\<close> produced and leaves the world as \<open>f\<close> left it, so \<^verbatim>\<open>Execute\<close>
  returns exactly what the callback chain returned on the terminal action. The sink's
  methods return nothing, so there is no reporting error that could take the place of
  the call's error.
\<close>

theorem result_untouched_by_metrics:
  "fst (registerMetrics key sink f w) = fst (f w)
   \<and> fst (snd (registerMetrics key sink f w)) = snd (f w)
   \<and> (chainCallback_field r = Some chain \<longrightarrow>
        (\<exists>calls. Execute r method url w =
           Inr (fst (chain (execute r method url) w), snd (chain (execute r method url) w), calls)))"
  by (simp add: registerMetrics_def Execute_def split: prod.splits option.splits)

text \<open>A refused connection with a sink configured: the caller gets the call's own error.\<close>

theorem result_untouched_by_metrics_witness:
  "\<exists>calls. Execute (test_request refused) ''GET'' ''/path'' world0 =
     Inr ((None, Some (Err ''connection refused'')),
          \<lparr>clock = 101, startTime = 100, env = ()\<rparr>, calls)"
  using result_untouched_by_metrics [of _ _ _ world0 "test_request refused" noopCallback
      "''GET''" "''/path''"]
  by (simp add: test_request_def refused_def world0_def noopCallback_def execute_def)

subsection \<open>The wrapped response\<close>

lemma find_cookie_Some:
  "find_cookie cs name = Some c \<Longrightarrow> c \<in> set cs \<and> Name c = name"
  by (induction cs) (auto split: if_splits)

lemma find_cookie_None:
  "find_cookie cs name = None \<longleftrightarrow> name \<notin> Name ` set cs"
  by (induction cs) auto

lemma find_cookie_first:
  "find_cookie (pre @ c # post) (Name c) = Some c" if "Name c \<notin> Name ` set pre"
  using that by (induction pre) auto

text \<open>
  Claim C8. The wrapped response has the raw status, body, headers and cookies; a header
  lookup goes through the canonical form of the key, so it does not depend on the case
  the caller writes; \<^verbatim>\<open>Cookie(name)\<close> is nil exactly when no cookie has the name and
  is otherwise the first cookie with it; and the response time is the clock at
  construction minus the recorded start, which for the terminal action is the time the
  underlying call took.
\<close>

theorem response_reflects_raw:
  "StatusCode (wrapResponse w raw) = raw_StatusCode raw
   \<and> Body (wrapResponse w raw) = raw_Body raw
   \<and> Header_of (wrapResponse w raw) = raw_Header raw
   \<and> Header_Get (Header_of (wrapResponse w raw)) key =
       (case raw_Header raw (CanonicalMIMEHeaderKey key) of
          None \<Rightarrow> [] | Some vs \<Rightarrow> (case vs of [] \<Rightarrow> [] | v # _ \<Rightarrow> v))
   \<and> Cookies_of (wrapResponse w raw) = raw_Cookies raw
   \<and> (Cookie (wrapResponse w raw) name = None \<longleftrightarrow> name \<notin> Name ` set (raw_Cookies raw))
   \<and> (Cookie (wrapResponse w raw) name = Some c \<longrightarrow> c \<in> set (raw_Cookies raw) \<and> Name c = name)
   \<and> (raw_Cookies raw = pre @ c # post \<and> Name c \<notin> Name ` set pre \<longrightarrow>
        Cookie (wrapResponse w raw) (Name c) = Some c)
   \<and> ResponseTime (wrapResponse w raw) = clock w - startTime w
   \<and> (restyRequest r method url (w\<lparr>startTime := clock w\<rparr>) = ((Some raw, err), w') \<and>
        startTime w' = clock w \<longrightarrow>
        (\<exists>resp. execute r method url w = ((Some resp, err), w') \<and>
                ResponseTime resp = clock w' - clock w))"
proof -
  have cookie: "Cookie (wrapResponse w raw) n = find_cookie (raw_Cookies raw) n" for n
    by (simp add: Cookie_def wrapResponse_def)
  have 1: "Cookie (wrapResponse w raw) name = None \<longleftrightarrow> name \<notin> Name ` set (raw_Cookies raw)"
    unfolding cookie by (rule find_cookie_None)
  have 2: "Cookie (wrapResponse w raw) name = Some c \<longrightarrow>
           c \<in> set (raw_Cookies raw) \<and> Name c = name"
    unfolding cookie using find_cookie_Some by blast
  have 3: "raw_Cookies raw = pre @ c # post \<and> Name c \<notin> Name ` set pre \<longrightarrow>
        Cookie (wrapResponse w raw) (Name c) = Some c"
    unfolding cookie using find_cookie_first by auto
  have 4: "Header_Get (Header_of (wrapResponse w raw)) key =
       (case raw_Header raw (CanonicalMIMEHeaderKey key) of
          None \<Rightarrow> [] | Some vs \<Rightarrow> (case vs of [] \<Rightarrow> [] | v # _ \<Rightarrow> v))"
    by (simp add: Header_Get_def Header_of_def wrapResponse_def split: option.splits list.splits)
  have 5: "restyRequest r method url (w\<lparr>startTime := clock w\<rparr>) = ((Some raw, err), w') \<and>
        startTime w' = clock w \<longrightarrow>
        (\<exists>resp. execute r method url w = ((Some resp, err), w') \<and>
                ResponseTime resp = clock w' - clock w)"
    by (simp add: execute_def ResponseTime_def wrapResponse_def)
  have 6: "StatusCode (wrapResponse w raw) = raw_StatusCode raw"
    "Body (wrapResponse w raw) = raw_Body raw"
    "Header_of (wrapResponse w raw) = raw_Header raw"
    "Cookies_of (wrapResponse w raw) = raw_Cookies raw"
    "ResponseTime (wrapResponse w raw) = clock w - startTime w"
    by (simp_all add: StatusCode_def Body_def Header_of_def Cookies_of_def ResponseTime_def
        wrapResponse_def)
  from 1 2 3 4 5 6 show ?thesis by blast
qed

lemma canon_test: "CanonicalMIMEHeaderKey ''testheader'' = ''Testheader''"
  by code_simp

text \<open>The response of the test server, looked up as response_test.go does.\<close>

theorem response_reflects_raw_witness:
  "StatusCode (wrapResponse \<lparr>clock = 7, startTime = 3, env = ()\<rparr> test_raw) = 200
   \<and> Body (wrapResponse \<lparr>clock = 7, startTime = 3, env = ()\<rparr> test_raw) = ''OK''
   \<and> Header_Get (Header_of (wrapResponse \<lparr>clock = 7, startTime = 3, env = ()\<rparr> test_raw))
        ''testheader'' = ''test''
   \<and> Cookie (wrapResponse \<lparr>clock = 7, startTime = 3, env = ()\<rparr> test_raw) ''testCookie'' =
        Some \<lparr>Name = ''testCookie'', Value = ''test'', Raw = ''testCookie=test'', MaxAge = 0\<rparr>
   \<and> ResponseTime (wrapResponse \<lparr>clock = 7, startTime = 3, env = ()\<rparr> test_raw) = 4"
proof -
  let ?w = "\<lparr>clock = 7, startTime = 3, env = ()\<rparr>"
  let ?c = "\<lparr>Name = ''testCookie'', Value = ''test'', Raw = ''testCookie=test'', MaxAge = 0\<rparr>"
  note t = response_reflects_raw [of ?w test_raw "''testheader''" "''testCookie''" ?c "[]" "[]"]
  have c: "raw_Cookies test_raw = [] @ ?c # [] \<and> Name ?c \<notin> Name ` set []"
    by (simp add: test_raw_def)
  from t have "StatusCode (wrapResponse ?w test_raw) = raw_StatusCode test_raw" by blast
  moreover from t have "Body (wrapResponse ?w test_raw) = raw_Body test_raw" by blast
  moreover from t have "Header_Get (Header_of (wrapResponse ?w test_raw)) ''testheader'' =
       (case raw_Header test_raw (CanonicalMIMEHeaderKey ''testheader'') of
          None \<Rightarrow> [] | Some vs \<Rightarrow> (case vs of [] \<Rightarrow> [] | v # _ \<Rightarrow> v))" by blast
  moreover from t c have "Cookie (wrapResponse ?w test_raw) (Name ?c) = Some ?c" by blast
  moreover from t have "ResponseTime (wrapResponse ?w test_raw) = clock ?w - startTime ?w"
    by blast
  ultimately show ?thesis by (simp add: test_raw_def canon_test)
qed

subsection \<open>The decorating transport\<close>

text \<open>
  Claim C10. \<^verbatim>\<open>requestID\<close> gives the empty string when nothing is stored under
  \<^verbatim>\<open>request.id\<close> and the stored value when it is a string. A stored value of another
  type makes the type assertion panic, and \<^verbatim>\<open>RoundTrip\<close> with it, before the wrapped
  round-tripper is called.
\<close>

theorem requestID_cases:
  "(ctx contextRequestIDKey = Nil_value \<longrightarrow> requestID ctx = Inr [])
   \<and> (ctx contextRequestIDKey = String_value s \<longrightarrow> requestID ctx = Inr s)
   \<and> (ctx contextRequestIDKey = Int_value i \<longrightarrow>
        requestID ctx = Inl TypeAssertion \<and> RoundTrip wrapped (req\<lparr>Context := ctx\<rparr>) st = Inl TypeAssertion)
   \<and> (ctx contextRequestIDKey = Bool_value b \<longrightarrow>
        requestID ctx = Inl TypeAssertion \<and> RoundTrip wrapped (req\<lparr>Context := ctx\<rparr>) st = Inl TypeAssertion)"
  by (simp add: requestID_def RoundTrip_def setRequestIDHeader_def)

text \<open>The two contexts of the repository's test, and one that stores a number.\<close>

theorem requestID_cases_witness:
  "requestID background = Inr []
   \<and> requestID (background(''request.id'' := String_value ''42'')) = Inr ''42''
   \<and> requestID (background(''request.id'' := Int_value 42)) = Inl TypeAssertion
   \<and> RoundTrip answering (outbound (background(''request.id'' := Int_value 42))) ()
       = Inl TypeAssertion"
  using requestID_cases [of background]
    requestID_cases [of "background(''request.id'' := String_value ''42'')" "''42''"]
    requestID_cases [of "background(''request.id'' := Int_value 42)" _ 42
      answering "outbound background" "()"]
  by (simp add: contextRequestIDKey_def background_def outbound_def)

lemma canon_request_id: "CanonicalMIMEHeaderKey ''X-Request-ID'' = ''X-Request-Id''"
  by code_simp

text \<open>
  Claim C4, amended. When the context holds no identifier, or the empty string, the
  request goes to the wrapped round-tripper as it is. When it holds a non-empty string,
  that value is added to the header \<^verbatim>\<open>X-Request-ID\<close> (stored under its canonical key,
  after any values already there) before the wrapped round-tripper is called. The wrapped
  round-tripper's error is returned unchanged; its response is returned unchanged when
  the error is nil, and nil is returned in its place when the error is not nil.
\<close>

theorem RoundTrip_decorates:
  "(Context req contextRequestIDKey = Nil_value \<or> Context req contextRequestIDKey = String_value [] \<longrightarrow>
      wrapped req st = ((resp, err), st') \<longrightarrow>
      RoundTrip wrapped req st =
        Inr (req, (case err of None \<Rightarrow> resp | Some e \<Rightarrow> None, err), st'))
   \<and> (Context req contextRequestIDKey = String_value rID \<longrightarrow> rID \<noteq> [] \<longrightarrow>
      wrapped (req\<lparr>Request_Header := Header_Add ''X-Request-ID'' rID (Request_Header req)\<rparr>) st
        = ((resp, err), st') \<longrightarrow>
      RoundTrip wrapped req st =
        Inr (req\<lparr>Request_Header := Header_Add ''X-Request-ID'' rID (Request_Header req)\<rparr>,
             (case err of None \<Rightarrow> resp | Some e \<Rightarrow> None, err), st'))
   \<and> Header_Get (Header_Add ''X-Request-ID'' rID Map.empty) ''x-request-id'' = rID
   \<and> Header_Add ''X-Request-ID'' rID h =
       h(''X-Request-Id'' \<mapsto> (case h ''X-Request-Id'' of None \<Rightarrow> [] | Some vs \<Rightarrow> vs) @ [rID])"
proof -
  have c2: "CanonicalMIMEHeaderKey ''x-request-id'' = ''X-Request-Id''" by code_simp
  have 1: "Context req contextRequestIDKey = Nil_value \<or> Context req contextRequestIDKey = String_value [] \<longrightarrow>
      wrapped req st = ((resp, err), st') \<longrightarrow>
      RoundTrip wrapped req st =
        Inr (req, (case err of None \<Rightarrow> resp | Some e \<Rightarrow> None, err), st')"
    by (auto simp: RoundTrip_def setRequestIDHeader_def requestID_def split: option.splits)
  have 2: "Context req contextRequestIDKey = String_value rID \<longrightarrow> rID \<noteq> [] \<longrightarrow>
      wrapped (req\<lparr>Request_Header := Header_Add ''X-Request-ID'' rID (Request_Header req)\<rparr>) st
        = ((resp, err), st') \<longrightarrow>
      RoundTrip wrapped req st =
        Inr (req\<lparr>Request_Header := Header_Add ''X-Request-ID'' rID (Request_Header req)\<rparr>,
             (case err of None \<Rightarrow> resp | Some e \<Rightarrow> None, err), st')"
    by (auto simp: RoundTrip_def setRequestIDHeader_def requestID_def split: option.splits)
  have 3: "Header_Get (Header_Add ''X-Request-ID'' rID Map.empty) ''x-request-id'' = rID"
    by (simp add: Header_Get_def Header_Add_def canon_request_id c2 Let_def)
  have 4: "Header_Add ''X-Request-ID'' rID h =
       h(''X-Request-Id'' \<mapsto> (case h ''X-Request-Id'' of None \<Rightarrow> [] | Some vs \<Rightarrow> vs) @ [rID])"
    by (simp add: Header_Add_def canon_request_id Let_def)
  from 1 2 3 4 show ?thesis by blast
qed

text \<open>A request without an identifier and one that carries \<^verbatim>\<open>42\<close>.\<close>

theorem RoundTrip_decorates_witness:
  "RoundTrip answering (outbound background) () =
     Inr (outbound background, (Some 200, None), ())
   \<and> RoundTrip answering (outbound (background(''request.id'' := String_value ''42''))) () =
     Inr (\<lparr>Context = background(''request.id'' := String_value ''42''),
          Request_Header = [''Accept'' \<mapsto> [''*/*''], ''X-Request-Id'' \<mapsto> [''42'']]\<rparr>,
          (Some 200, None), ())"
proof -
  let ?req = "outbound (background(''request.id'' := String_value ''42''))"
  note a = RoundTrip_decorates [of "outbound background" answering "()" "Some 200" None "()"]
  note b = RoundTrip_decorates [of ?req answering "()" "Some 200" None "()" "''42''"
      "[''Accept'' \<mapsto> [''*/*'']]"]
  have 1: "RoundTrip answering (outbound background) () =
     Inr (outbound background, (Some 200, None), ())"
    using a by (simp add: background_def outbound_def contextRequestIDKey_def answering_def)
  have 2: "RoundTrip answering ?req () =
     Inr (?req\<lparr>Request_Header := Header_Add ''X-Request-ID'' ''42'' (Request_Header ?req)\<rparr>,
          (Some 200, None), ())"
    using b by (simp add: outbound_def contextRequestIDKey_def answering_def)
  have 3: "Header_Add ''X-Request-ID'' ''42'' [''Accept'' \<mapsto> [''*/*'']] =
       [''Accept'' \<mapsto> [''*/*''], ''X-Request-Id'' \<mapsto> [''42'']]"
    using b by simp
  from 1 2 3 show ?thesis by (simp add: outbound_def)
qed

text \<open>
  A wrapped round-tripper that returns a response together with an error: the caller
  receives the error and no response.
\<close>

theorem RoundTrip_passthrough_counterexample:
  "failing_with_response (outbound background) () = ((Some 502, Some (Err ''bad gateway'')), ())
   \<and> RoundTrip failing_with_response (outbound background) () =
       Inr (outbound background, (None, Some (Err ''bad gateway'')), ())"
  by (simp add: RoundTrip_def setRequestIDHeader_def requestID_def failing_with_response_def
      outbound_def background_def)

subsection \<open>Options at construction\<close>

lemma newClient_snoc:
  "newClient rc oauth (opts @ [opt]) = opt (newClient rc oauth opts)"
  by (simp add: newClient_def)

text \<open>
  Claim C9. \<^verbatim>\<open>WithHostURL\<close> stores whatever \<^verbatim>\<open>url.Parse\<close> returned and drops its
  error, and touches neither the sink nor the chain: it has no failing path, for any
  string. When the string does not parse, the client built with it has a nil host URL,
  and a request of that client without an alias reports under the raw url (full stops
  replaced).
\<close>

theorem malformed_host_url:
  "hostURL (WithHostURL url_Parse baseURL c) = url_Parse baseURL
   \<and> metrics (WithHostURL url_Parse baseURL c) = metrics c
   \<and> callbackChain (WithHostURL url_Parse baseURL c) = callbackChain c
   \<and> (url_Parse baseURL = None \<longrightarrow>
        hostURL (newClient rc oauth (opts @ [WithHostURL url_Parse baseURL])) = None
        \<and> metricsAlias
            (NewRequest (newClient rc oauth (opts @ [WithHostURL url_Parse baseURL])) rr)
            method url = replace_dots url)"
  by (simp add: newClient_snoc WithHostURL_def metricsAlias_def NewRequest_def)

text \<open>A client built with a string that does not parse.\<close>

theorem malformed_host_url_witness:
  "hostURL (newClient resty_New False [WithHostURL parse_example '':malformed'']
             :: unit HTTPClient) = None
   \<and> metricsAlias
        (NewRequest (newClient resty_New False [WithHostURL parse_example '':malformed'']) served)
        ''GET'' ''/v1.2/ping'' = ''/v1-2/ping''"
proof -
  have p: "parse_example '':malformed'' = None"
    by (simp add: parse_example_def)
  have "parse_example '':malformed'' = None \<longrightarrow>
        hostURL (newClient resty_New False ([] @ [WithHostURL parse_example '':malformed''])
                  :: unit HTTPClient) = None
        \<and> metricsAlias
            (NewRequest (newClient resty_New False ([] @ [WithHostURL parse_example '':malformed'']))
               served)
            ''GET'' ''/v1.2/ping'' = replace_dots ''/v1.2/ping''"
    using malformed_host_url [of parse_example "'':malformed''" undefined resty_New False "[]"
        served "''GET''" "''/v1.2/ping''"]
    by blast
  with p show ?thesis by (simp add: replace_dots_def)
qed

lemmas option_defs =
  WithDefaultTransport_def WithTransport_def WithOAUTHTransport_def
  WithDefaultTransportWithProxy_def setTransport_def WithTimeout_def WithUserAgent_def
  WithBasicAuth_def WithAuthToken_def WithCookie_def WithHostURL_def WithMetrics_def
  WithRetries_def WithRetryConditions_def
  SetTransport_def SetTimeout_def SetHeader_def SetBasicAuth_def SetAuthToken_def
  SetCookie_def SetHostURL_def SetRetryCount_def SetRetryWaitTime_def SetRetryMaxWaitTime_def

lemma fold_conditions:
  "foldl (\<lambda>c condition. AddRetryCondition condition c) rc cs =
     rc\<lparr>RetryConditions := RetryConditions rc @ cs\<rparr>"
  by (induction cs arbitrary: rc) (simp_all add: AddRetryCondition_def)

lemma SetProxy_footprint:
  "\<exists>T P. \<forall>c. SetProxy parse a c =
     c\<lparr>Transport_field := T (Transport_field c),
       proxyURL_field := P (Transport_field c) (proxyURL_field c)\<rparr>"
proof -
  let ?T = "\<lambda>tf. Transport_field (SetProxy parse a (resty_New\<lparr>Transport_field := tf\<rparr>))"
  let ?P = "\<lambda>tf pu. proxyURL_field
              (SetProxy parse a (resty_New\<lparr>Transport_field := tf, proxyURL_field := pu\<rparr>))"
  have "\<forall>c. SetProxy parse a c =
     c\<lparr>Transport_field := ?T (Transport_field c),
       proxyURL_field := ?P (Transport_field c) (proxyURL_field c)\<rparr>"
  proof
    fix c
    show "SetProxy parse a c =
     c\<lparr>Transport_field := ?T (Transport_field c),
       proxyURL_field := ?P (Transport_field c) (proxyURL_field c)\<rparr>"
      by (cases c)
         (simp add: SetProxy_def RemoveProxy_def getTransport_def SetTransport_def resty_New_def
            split: option.splits RoundTripper.splits)
  qed
  then show ?thesis
    by (intro exI [of _ ?T] exI [of _ ?P])
qed

lemma proxy_commutes:
  assumes "registered b = None"
    and "F_Transport \<notin> set (writes b)" and "F_proxyURL \<notin> set (writes b)"
  shows "WithProxy parse a (the_option b c) = the_option b (WithProxy parse a c)"
proof -
  obtain T P where sp: "\<And>c. SetProxy parse a c =
     c\<lparr>Transport_field := T (Transport_field c),
       proxyURL_field := P (Transport_field c) (proxyURL_field c)\<rparr>"
    using SetProxy_footprint [of parse a] by blast
  obtain r h m k where c: "c = \<lparr>resty = r, hostURL = h, metrics = m, callbackChain = k\<rparr>"
    by (cases c) simp
  obtain f1 f2 f3 f4 f5 f6 f7 f8 f9 f10 f11 f12 where r: "r = \<lparr>Transport_field = f1, Timeout = f2,
      Header = f3, UserInfo = f4, Token = f5, Cookies = f6, HostURL = f7, RetryCount = f8,
      RetryWaitTime = f9, RetryMaxWaitTime = f10, RetryConditions = f11, proxyURL_field = f12\<rparr>"
    by (cases r) simp
  from assms show ?thesis
    unfolding c r WithProxy_def
    by (cases b) (simp_all add: sp option_defs fold_conditions)
qed

lemma plain_options_commute:
  assumes "registered a = None" and "registered b = None" and "disjoint_writes a b"
    and "F_proxyURL \<notin> set (writes a)" and "F_proxyURL \<notin> set (writes b)"
  shows "the_option a (the_option b c) = the_option b (the_option a c)"
proof -
  obtain r h m k where c: "c = \<lparr>resty = r, hostURL = h, metrics = m, callbackChain = k\<rparr>"
    by (cases c) simp
  obtain f1 f2 f3 f4 f5 f6 f7 f8 f9 f10 f11 f12 where r: "r = \<lparr>Transport_field = f1, Timeout = f2,
      Header = f3, UserInfo = f4, Token = f5, Cookies = f6, HostURL = f7, RetryCount = f8,
      RetryWaitTime = f9, RetryMaxWaitTime = f10, RetryConditions = f11, proxyURL_field = f12\<rparr>"
    by (cases r) simp
  from assms show ?thesis
    unfolding c r
    by (cases a; cases b) (simp_all add: disjoint_writes_def option_defs fold_conditions)
qed

lemma options_commute:
  assumes ra: "registered a = None" and rb: "registered b = None" and d: "disjoint_writes a b"
  shows "the_option a (the_option b c) = the_option b (the_option a c)"
proof (cases "F_proxyURL \<in> set (writes a)")
  case True
  then obtain parse addr where a: "a = ProxyOf parse addr"
    by (cases a) simp_all
  from d have "F_Transport \<notin> set (writes b)" "F_proxyURL \<notin> set (writes b)"
    by (simp_all add: a disjoint_writes_def)
  with rb show ?thesis
    by (simp add: a proxy_commutes)
next
  case False
  show ?thesis
  proof (cases "F_proxyURL \<in> set (writes b)")
    case True
    then obtain parse addr where b: "b = ProxyOf parse addr"
      by (cases b) simp_all
    from d have "F_Transport \<notin> set (writes a)" "F_proxyURL \<notin> set (writes a)"
      by (cases a; simp add: b disjoint_writes_def)+
    with ra show ?thesis
      by (simp add: b proxy_commutes)
  next
    case nb: False
    from ra rb d False nb show ?thesis by (rule plain_options_commute)
  qed
qed


text \<open>
  Claim C7, amended. Two options that register no callback and assign no field in common
  give the same client in either order. Options that assign a common field are an
  exception beside the callback-registering ones: two sinks give the same client in
  both orders only when they are the same sink, a custom transport and the default
  transport never do. Two registered callbacks nest in the order of registration.
\<close>

theorem disjoint_options_commute:
  "(registered a = None \<longrightarrow> registered b = None \<longrightarrow> disjoint_writes a b \<longrightarrow>
      newClient restyClient oauth [the_option a, the_option b] =
      newClient restyClient oauth [the_option b, the_option a])
   \<and> (newClient restyClient oauth [WithMetrics m1, WithMetrics m2] =
        newClient restyClient oauth [WithMetrics m2, WithMetrics m1] \<longleftrightarrow> m1 = m2)
   \<and> newClient restyClient oauth [WithTransport t, WithDefaultTransport d] \<noteq>
       newClient restyClient oauth [WithDefaultTransport d, WithTransport t]
   \<and> callbackChain (newClient restyClient oauth [WithChainCallback c1, WithChainCallback c2]) =
       Some (\<lambda>fn. c2 (c1 fn))"
proof -
  have 1: "registered a = None \<longrightarrow> registered b = None \<longrightarrow> disjoint_writes a b \<longrightarrow>
      newClient restyClient oauth [the_option a, the_option b] =
      newClient restyClient oauth [the_option b, the_option a]"
  proof (intro impI)
    assume ra: "registered a = None" and rb: "registered b = None" and d: "disjoint_writes a b"
    have "the_option b (the_option a c0) = the_option a (the_option b c0)" for c0
      using options_commute [OF ra rb d, of c0] by (rule sym)
    then show "newClient restyClient oauth [the_option a, the_option b] =
      newClient restyClient oauth [the_option b, the_option a]"
      by (simp only: newClient_def foldl.simps)
  qed
  have 2: "newClient restyClient oauth [WithMetrics m1, WithMetrics m2] =
        newClient restyClient oauth [WithMetrics m2, WithMetrics m1] \<longleftrightarrow> m1 = m2"
    by (auto simp: newClient_def WithMetrics_def)
  have "Transport_field (resty (newClient restyClient oauth
          [WithTransport t, WithDefaultTransport d])) = Some (NewDefaultTransport d)"
    and "Transport_field (resty (newClient restyClient oauth
          [WithDefaultTransport d, WithTransport t])) = Some (HttpTransport t)"
    by (simp_all add: newClient_def WithTransport_def WithDefaultTransport_def
        setTransport_def SetTransport_def)
  then have 3: "newClient restyClient oauth [WithTransport t, WithDefaultTransport d] \<noteq>
       newClient restyClient oauth [WithDefaultTransport d, WithTransport t]"
    by (metis NewDefaultTransport_def RoundTripper.distinct(1) option.inject)
  have 4: "callbackChain (newClient restyClient oauth [WithChainCallback c1, WithChainCallback c2]) =
       Some (\<lambda>fn. c2 (c1 fn))"
    by (simp add: newClient_def WithChainCallback_def chainCallback_def noopCallback_def)
  show ?thesis by (intro conjI 1 2 3 4)
qed

text \<open>
  A sink with a host URL, a timeout with a user agent, and a proxy with a cookie, in both
  orders.
\<close>

theorem disjoint_options_commute_witness:
  "(newClient resty_New False [WithMetrics (Some (Sink 1)), WithHostURL parse_example ''http://host.example'']
      :: unit HTTPClient) =
   newClient resty_New False [WithHostURL parse_example ''http://host.example'', WithMetrics (Some (Sink 1))]
   \<and> (newClient resty_New False [WithTimeout second, WithUserAgent ''agent'']
      :: unit HTTPClient) =
   newClient resty_New False [WithUserAgent ''agent'', WithTimeout second]
   \<and> (newClient resty_New False [WithProxy parse_example ''http://host.example'', WithCookie ''k'' ''v'']
      :: unit HTTPClient) =
   newClient resty_New False [WithCookie ''k'' ''v'', WithProxy parse_example ''http://host.example'']"
proof -
  have "(newClient resty_New False [the_option (MetricsOf (Some (Sink 1))),
            the_option (HostURLOf parse_example ''http://host.example'')] :: unit HTTPClient) =
        newClient resty_New False [the_option (HostURLOf parse_example ''http://host.example''),
            the_option (MetricsOf (Some (Sink 1)))]"
    using disjoint_options_commute [THEN conjunct1, of "MetricsOf (Some (Sink 1)) :: unit option_spec"
        "HostURLOf parse_example ''http://host.example''" resty_New False]
    by (simp add: disjoint_writes_def)
  moreover have "(newClient resty_New False [the_option (TimeoutOf second),
            the_option (UserAgent ''agent'')] :: unit HTTPClient) =
        newClient resty_New False [the_option (UserAgent ''agent''), the_option (TimeoutOf second)]"
    using disjoint_options_commute [THEN conjunct1, of "TimeoutOf second :: unit option_spec"
        "UserAgent ''agent''" resty_New False]
    by (simp add: disjoint_writes_def)
  moreover have "(newClient resty_New False
           [the_option (ProxyOf parse_example ''http://host.example''),
            the_option (CookieOf ''k'' ''v'')] :: unit HTTPClient) =
        newClient resty_New False [the_option (CookieOf ''k'' ''v''),
            the_option (ProxyOf parse_example ''http://host.example'')]"
    using disjoint_options_commute [THEN conjunct1, of "ProxyOf parse_example ''http://host.example'' :: unit option_spec"
        "CookieOf ''k'' ''v''" resty_New False]
    by (simp add: disjoint_writes_def)
  ultimately show ?thesis by simp
qed

text \<open>
  Two sinks, and two transports, applied in both orders: the client keeps the one applied
  last, so the two orders give different clients.
\<close>

theorem options_order_counterexample:
  "metrics (newClient resty_New False [WithMetrics (Some (Sink 1)), WithMetrics (Some (Sink 2))]
      :: unit HTTPClient) = Some (Sink 2)
   \<and> metrics (newClient resty_New False [WithMetrics (Some (Sink 2)), WithMetrics (Some (Sink 1))]
      :: unit HTTPClient) = Some (Sink 1)
   \<and> Transport_field (resty (newClient resty_New False
        [WithTransport plain_Transport, WithDefaultTransport second] :: unit HTTPClient)) =
       Some (NewDefaultTransport second)
   \<and> Transport_field (resty (newClient resty_New False
        [WithDefaultTransport second, WithTransport plain_Transport] :: unit HTTPClient)) =
       Some (HttpTransport plain_Transport)"
  by (simp add: newClient_def WithMetrics_def WithTransport_def WithDefaultTransport_def
      setTransport_def SetTransport_def)

end
